theory Spec2Isabelle
  imports Main
begin

section \<open>Python values and ASGI messages\<close>

text \<open>
  The values that travel through \<^verbatim>\<open>websocket.py\<close>: \<^verbatim>\<open>None\<close>, \<^verbatim>\<open>str\<close>, \<^verbatim>\<open>bytes\<close> and
  \<^verbatim>\<open>int\<close>. A \<^verbatim>\<open>bytes\<close> value is a list of 8-bit characters. An ASGI message, the ASGI
  scope and the keyword arguments of \<^verbatim>\<open>send\<close> are dictionaries with string keys.
\<close>

datatype pyval = PNone | PStr string | PBytes string | PInt int

type_synonym message = "string \<rightharpoonup> pyval"

text \<open>Truth value testing, as in \<^verbatim>\<open>if data:\<close>.\<close>

fun truthy :: "pyval \<Rightarrow> bool" where
  "truthy PNone = False"
| "truthy (PStr s) = (s \<noteq> [])"
| "truthy (PBytes b) = (b \<noteq> [])"
| "truthy (PInt i) = (i \<noteq> 0)"

text \<open>\<^verbatim>\<open>isinstance(data, str)\<close> and \<^verbatim>\<open>isinstance(data, bytes)\<close>.\<close>

fun is_str :: "pyval \<Rightarrow> bool" where
  "is_str (PStr s) = True"
| "is_str v = False"

fun is_bytes :: "pyval \<Rightarrow> bool" where
  "is_bytes (PBytes b) = True"
| "is_bytes v = False"

text \<open>\<^verbatim>\<open>d.get(k, default)\<close>.\<close>

definition dict_get :: "message \<Rightarrow> string \<Rightarrow> pyval \<Rightarrow> pyval" where
  "dict_get d k dflt = (case d k of None \<Rightarrow> dflt | Some v \<Rightarrow> v)"

subsection \<open>Formatting with \<^verbatim>\<open>%s\<close>\<close>

fun str_nat :: "nat \<Rightarrow> string" where
  "str_nat n =
     (if n < 10 then [''0123456789'' ! n]
      else str_nat (n div 10) @ [''0123456789'' ! (n mod 10)])"

declare str_nat.simps [simp del]

definition str_int :: "int \<Rightarrow> string" where
  "str_int i = (if i < 0 then CHR ''-'' # str_nat (nat (- i)) else str_nat (nat i))"

text \<open>
  The \<^verbatim>\<open>repr\<close> of a \<^verbatim>\<open>bytes\<close> value: the quote is \<^verbatim>\<open>'\<close> unless the value holds a
  \<^verbatim>\<open>'\<close> and no \<^verbatim>\<open>"\<close>; the quote and the backslash are escaped, tab, newline and
  carriage return have their letters, other bytes outside the printable ASCII range are
  written as two hexadecimal digits.
\<close>

definition repr_quote :: "string \<Rightarrow> char" where
  "repr_quote b =
     (if CHR 0x27 \<in> set b \<and> CHR 0x22 \<notin> set b then CHR 0x22 else CHR 0x27)"

definition repr_byte :: "char \<Rightarrow> char \<Rightarrow> string" where
  "repr_byte quote c =
     (if c = quote \<or> c = CHR 0x5C then [CHR 0x5C, c]
      else if c = CHR 0x09 then [CHR 0x5C, CHR ''t'']
      else if c = CHR 0x0A then [CHR 0x5C, CHR ''n'']
      else if c = CHR 0x0D then [CHR 0x5C, CHR ''r'']
      else if (of_char c :: nat) < 32 \<or> 127 \<le> (of_char c :: nat) then
        [CHR 0x5C, CHR ''x'',
         ''0123456789abcdef'' ! ((of_char c :: nat) div 16),
         ''0123456789abcdef'' ! ((of_char c :: nat) mod 16)]
      else [c])"

definition repr_bytes :: "string \<Rightarrow> string" where
  "repr_bytes b =
     (let quote = repr_quote b
      in CHR ''b'' # quote # concat (map (repr_byte quote) b) @ [quote])"

text \<open>\<^verbatim>\<open>'%s' % v\<close> for a value \<^verbatim>\<open>v\<close> that is not a tuple.\<close>

fun py_str :: "pyval \<Rightarrow> string" where
  "py_str PNone = ''None''"
| "py_str (PStr s) = s"
| "py_str (PBytes b) = repr_bytes b"
| "py_str (PInt i) = str_int i"

section \<open>Status codes and exceptions\<close>

datatype status =
    OK | LEAVING | PROT_ERROR | UNSUPPORTED_TYPE | RESERVED_1004 | NO_STATUS
  | CLOSED_ABNORMAL | INALID_DATA | POLICY_VIOLATION | TOO_BIG | TLS_FAIL

fun status_value :: "status \<Rightarrow> int" where
  "status_value OK = 1000"
| "status_value LEAVING = 1001"
| "status_value PROT_ERROR = 1002"
| "status_value UNSUPPORTED_TYPE = 1003"
| "status_value RESERVED_1004 = 1004"
| "status_value NO_STATUS = 1005"
| "status_value CLOSED_ABNORMAL = 1006"
| "status_value INALID_DATA = 1007"
| "status_value POLICY_VIOLATION = 1008"
| "status_value TOO_BIG = 1009"
| "status_value TLS_FAIL = 1010"

text \<open>
  The two exception classes of the module derive from the framework's
  \<^verbatim>\<open>HTTPException\<close>, whose initializer stores the \<^verbatim>\<open>detail\<close> and the \<^verbatim>\<open>status_code\<close>
  it is given. An exception value carries these two attributes. \<^verbatim>\<open>KeyError\<close> and
  \<^verbatim>\<open>AttributeError\<close> are the built-in errors of a missing dictionary key and a missing
  attribute.
\<close>

datatype exn =
    WebSocketClosed string int
  | WebSocketProtocolError string int
  | KeyError string
  | AttributeError string

text \<open>
  The initializers. An argument left out by the caller is \<open>None\<close> and takes the default
  of the signature.
\<close>

definition WebSocketClosed_init :: "string option \<Rightarrow> int option \<Rightarrow> exn" where
  "WebSocketClosed_init detail status_code =
     (let detail = (case detail of None \<Rightarrow> ''WebSocket has closed'' | Some d \<Rightarrow> d);
          status_code = (case status_code of None \<Rightarrow> status_value OK | Some c \<Rightarrow> c)
      in WebSocketClosed detail 200)"

definition WebSocketProtocolError_init :: "string option \<Rightarrow> int option \<Rightarrow> exn" where
  "WebSocketProtocolError_init detail status_code =
     (let detail = (case detail of None \<Rightarrow> ''WebSocket protocol error'' | Some d \<Rightarrow> d);
          status_code = (case status_code of None \<Rightarrow> status_value PROT_ERROR | Some c \<Rightarrow> c)
      in WebSocketProtocolError detail status_code)"

section \<open>Coroutines over the server runtime\<close>

text \<open>
  An awaited call either returns a value, raises, or never resumes. It runs in the
  state \<open>'w\<close> of the server runtime and leaves a new state.
\<close>

datatype 'a outcome = Return 'a | Raise exn | Pending

type_synonym ('w, 'a) coroutine = "'w \<Rightarrow> 'a outcome \<times> 'w"

definition await :: "('w, 'a) coroutine \<Rightarrow> ('a \<Rightarrow> ('w, 'b) coroutine) \<Rightarrow> ('w, 'b) coroutine" where
  "await m k w =
     (case m w of
        (Return x, w') \<Rightarrow> k x w'
      | (Raise e, w') \<Rightarrow> (Raise e, w')
      | (Pending, w') \<Rightarrow> (Pending, w'))"

definition returns :: "'a \<Rightarrow> ('w, 'a) coroutine" where
  "returns x w = (Return x, w)"

definition raises :: "exn \<Rightarrow> ('w, 'a) coroutine" where
  "raises e w = (Raise e, w)"

section \<open>The WebSocket wrapper\<close>

text \<open>
  \<^verbatim>\<open>websockets.protocol.State\<close>, and the object behind \<^verbatim>\<open>asgi_send.__self__\<close>: it either
  has a \<^verbatim>\<open>state\<close> attribute, or it has none and its \<^verbatim>\<open>protocol\<close> has one. The object is
  owned by the runtime, so its attributes are read from the runtime's state at each query.
\<close>

datatype conn_state = CONNECTING | OPEN | CLOSING | CLOSED

datatype request_obj = WithState conn_state | WithProtocol conn_state

record 'w websocket =
  scope :: message
  asgi_send :: "message \<Rightarrow> ('w, pyval) coroutine"
  asgi_receive :: "('w, message) coroutine"
  ws_request :: "('w \<Rightarrow> request_obj) option"

text \<open>
  \<^verbatim>\<open>WebSocket.__init__\<close>. The last argument is the \<^verbatim>\<open>__self__\<close> attribute of the send
  callable, \<open>None\<close> when the callable has none (the \<^verbatim>\<open>AttributeError\<close> branch, which
  stores \<^verbatim>\<open>None\<close>).
\<close>

definition WebSocket_init ::
  "message \<Rightarrow> (message \<Rightarrow> ('w, pyval) coroutine) \<Rightarrow> ('w, message) coroutine \<Rightarrow>
   ('w \<Rightarrow> request_obj) option \<Rightarrow> 'w websocket" where
  "WebSocket_init asgi_scope send_fn receive_fn send_self =
     \<lparr>scope = asgi_scope, asgi_send = send_fn, asgi_receive = receive_fn,
      ws_request = send_self\<rparr>"

definition state :: "'w websocket \<Rightarrow> 'w \<Rightarrow> exn + conn_state" where
  "state self w =
     (case ws_request self of
        None \<Rightarrow> Inl (AttributeError ''protocol'')
      | Some obj \<Rightarrow>
          (case obj w of
             WithState s \<Rightarrow> Inr s
           | WithProtocol s \<Rightarrow> Inr s))"

definition is_open :: "'w websocket \<Rightarrow> 'w \<Rightarrow> exn + bool" where
  "is_open self w = (case state self w of Inl e \<Rightarrow> Inl e | Inr s \<Rightarrow> Inr (s = OPEN))"

definition send :: "'w websocket \<Rightarrow> pyval \<Rightarrow> message \<Rightarrow> ('w, pyval) coroutine" where
  "send self data kwargs =
     (let msg = [''type'' \<mapsto> PStr ''websocket.send''];
          msg = msg ++ kwargs;
          msg = (if truthy data then
                   (if is_str data then msg(''text'' \<mapsto> data)
                    else if is_bytes data then msg(''bytes'' \<mapsto> data)
                    else msg)
                 else msg)
      in asgi_send self msg)"

definition receive :: "'w websocket \<Rightarrow> ('w, pyval) coroutine" where
  "receive self =
     await (asgi_receive self)
       (\<lambda>msg. returns (dict_get msg ''text'' (dict_get msg ''bytes'' PNone)))"

definition connect :: "'w websocket \<Rightarrow> ('w, pyval) coroutine" where
  "connect self =
     await (asgi_receive self)
       (\<lambda>msg. case msg ''type'' of
                 None \<Rightarrow> raises (KeyError ''type'')
               | Some t \<Rightarrow>
                   if t \<noteq> PStr ''websocket.connect'' then
                     raises (WebSocketProtocolError_init
                       (Some (''Expected websocket connection but got: '' @ py_str t)) None)
                   else
                     await (asgi_send self [''type'' \<mapsto> PStr ''websocket.accept''])
                       (\<lambda>_. returns PNone))"

text \<open>\<^verbatim>\<open>close\<close>: a \<open>code\<close> left out by the caller is \<open>None\<close> and defaults to \<^verbatim>\<open>Status.OK.value\<close>.\<close>

definition close :: "'w websocket \<Rightarrow> int option \<Rightarrow> pyval \<Rightarrow> ('w, pyval) coroutine" where
  "close self code data =
     (let code = (case code of None \<Rightarrow> status_value OK | Some c \<Rightarrow> c);
          message = [''type'' \<mapsto> PStr ''websocket.disconnect'', ''code'' \<mapsto> PInt code];
          message = (if truthy data then
                       (if is_str data then message(''text'' \<mapsto> data)
                        else if is_bytes data then message(''bytes'' \<mapsto> data)
                        else message)
                     else message)
      in await (asgi_send self message) (\<lambda>_. returns PNone))"

section \<open>The hook\<close>

text \<open>
  The framework's \<^verbatim>\<open>Response\<close>; the hook reads its \<^verbatim>\<open>content\<close> only. A response object is
  always true in a condition; the hook may be handed \<^verbatim>\<open>None\<close> instead of a response.
\<close>

record response =
  content :: pyval

definition response_data :: "response option \<Rightarrow> pyval" where
  "response_data r = (case r of None \<Rightarrow> PNone | Some resp \<Rightarrow> content resp)"

definition on_request :: "'w websocket \<Rightarrow> ('w, pyval) coroutine" where
  "on_request ws =
     (if scope ws ''type'' = Some (PStr ''websocket'') then
        await (connect ws) (\<lambda>_. returns PNone)
      else returns PNone)"

definition on_response ::
  "'w websocket \<Rightarrow> response option \<Rightarrow> message \<Rightarrow> ('w, pyval) coroutine" where
  "on_response ws resp sc w =
     (if sc ''type'' = Some (PStr ''websocket'') then
        (case is_open ws w of
           Inl e \<Rightarrow> raises e w
         | Inr opened \<Rightarrow>
             if opened then
               await (close ws None (response_data resp)) (\<lambda>_. returns PNone) w
             else returns PNone w)
      else returns PNone w)"

definition on_error ::
  "'w websocket \<Rightarrow> response option \<Rightarrow> message \<Rightarrow> ('w, pyval) coroutine" where
  "on_error ws resp sc w =
     (if sc ''type'' = Some (PStr ''websocket'') then
        (case is_open ws w of
           Inl e \<Rightarrow> raises e w
         | Inr opened \<Rightarrow>
             if opened then
               await (close ws None (response_data resp)) (\<lambda>_. returns PNone) w
             else returns PNone w)
      else returns PNone w)"

section \<open>A runtime that queues and records\<close>

text \<open>
  The server runtime is not part of the package. To state what the wrapper hands to
  it, the runtime is a queue of inbound messages still to be delivered, the list of
  outbound messages it has been given so far, and the connection object. Its receive
  call delivers the head of the queue and does not resume when the queue is empty; its
  send call takes every message and returns \<^verbatim>\<open>None\<close>.
\<close>

record runtime =
  inbound :: "message list"
  outbound :: "message list"
  connection :: request_obj

definition runtime_send :: "message \<Rightarrow> (runtime, pyval) coroutine" where
  "runtime_send msg w = (Return PNone, w\<lparr>outbound := outbound w @ [msg]\<rparr>)"

definition runtime_receive :: "(runtime, message) coroutine" where
  "runtime_receive w =
     (case inbound w of
        [] \<Rightarrow> (Pending, w)
      | msg # rest \<Rightarrow> (Return msg, w\<lparr>inbound := rest\<rparr>))"

text \<open>
  \<^verbatim>\<open>WebSocketComponent.resolve\<close>; as in \<open>WebSocket_init\<close>, the last argument is the
  \<^verbatim>\<open>__self__\<close> of the send callable.
\<close>

definition resolve ::
  "message \<Rightarrow> (message \<Rightarrow> ('w, pyval) coroutine) \<Rightarrow> ('w, message) coroutine \<Rightarrow>
   ('w \<Rightarrow> request_obj) option \<Rightarrow> 'w websocket" where
  "resolve sc send_fn receive_fn send_self = WebSocket_init sc send_fn receive_fn send_self"

text \<open>The wrapper resolved on the recording runtime.\<close>

definition recorded :: "message \<Rightarrow> (runtime \<Rightarrow> request_obj) option \<Rightarrow> runtime websocket" where
  "recorded sc send_self = resolve sc runtime_send runtime_receive send_self"

section \<open>The wrapper on the recording runtime\<close>

lemmas ws_defs = recorded_def resolve_def WebSocket_init_def runtime_send_def runtime_receive_def
  await_def returns_def raises_def

lemma connect_recorded:
  "connect (recorded sc obj) w =
     (case inbound w of
        [] \<Rightarrow> (Pending, w)
      | msg # rest \<Rightarrow>
          (case msg ''type'' of
             None \<Rightarrow> (Raise (KeyError ''type''), w\<lparr>inbound := rest\<rparr>)
           | Some t \<Rightarrow>
               if t = PStr ''websocket.connect'' then
                 (Return PNone,
                  w\<lparr>inbound := rest,
                    outbound := outbound w @ [[''type'' \<mapsto> PStr ''websocket.accept'']]\<rparr>)
               else
                 (Raise (WebSocketProtocolError
                    (''Expected websocket connection but got: '' @ py_str t) 1002),
                  w\<lparr>inbound := rest\<rparr>)))"
  by (simp add: connect_def ws_defs WebSocketProtocolError_init_def
      split: list.splits option.splits)

lemma receive_recorded:
  "receive (recorded sc obj) w =
     (case inbound w of
        [] \<Rightarrow> (Pending, w)
      | msg # rest \<Rightarrow>
          (Return (dict_get msg ''text'' (dict_get msg ''bytes'' PNone)), w\<lparr>inbound := rest\<rparr>))"
  by (simp add: receive_def ws_defs split: list.splits)

lemma send_recorded:
  "send (recorded sc obj) data kwargs w =
     (Return PNone,
      w\<lparr>outbound := outbound w @
          [if truthy data \<and> is_str data then
             ([''type'' \<mapsto> PStr ''websocket.send''] ++ kwargs)(''text'' \<mapsto> data)
           else if truthy data \<and> is_bytes data then
             ([''type'' \<mapsto> PStr ''websocket.send''] ++ kwargs)(''bytes'' \<mapsto> data)
           else [''type'' \<mapsto> PStr ''websocket.send''] ++ kwargs]\<rparr>)"
  by (simp add: send_def ws_defs Let_def)

lemma close_recorded:
  "close (recorded sc obj) code data w =
     (Return PNone,
      w\<lparr>outbound := outbound w @
          [if truthy data \<and> is_str data then
             [''type'' \<mapsto> PStr ''websocket.disconnect'',
              ''code'' \<mapsto> PInt (case code of None \<Rightarrow> 1000 | Some c \<Rightarrow> c), ''text'' \<mapsto> data]
           else if truthy data \<and> is_bytes data then
             [''type'' \<mapsto> PStr ''websocket.disconnect'',
              ''code'' \<mapsto> PInt (case code of None \<Rightarrow> 1000 | Some c \<Rightarrow> c), ''bytes'' \<mapsto> data]
           else
             [''type'' \<mapsto> PStr ''websocket.disconnect'',
              ''code'' \<mapsto> PInt (case code of None \<Rightarrow> 1000 | Some c \<Rightarrow> c)]]\<rparr>)"
  by (simp add: close_def ws_defs Let_def split: option.splits)

lemma is_open_recorded:
  "is_open (recorded sc obj) w =
     (case obj of
        None \<Rightarrow> Inl (AttributeError ''protocol'')
      | Some rd \<Rightarrow> Inr (rd w = WithState OPEN \<or> rd w = WithProtocol OPEN))"
  by (auto simp: is_open_def state_def ws_defs split: option.splits request_obj.splits)

lemma scope_recorded: "scope (recorded sc obj) = sc"
  by (simp add: ws_defs)

lemma outbound_grows: "w\<lparr>outbound := outbound w @ [m]\<rparr> \<noteq> (w :: runtime)"
proof
  assume "w\<lparr>outbound := outbound w @ [m]\<rparr> = w"
  then have "outbound (w\<lparr>outbound := outbound w @ [m]\<rparr>) = outbound w" by simp
  then show False by simp
qed

lemma outbound_grows_inbound:
  "w\<lparr>inbound := r, outbound := outbound w @ [m]\<rparr> \<noteq> (w :: runtime)"
proof
  assume "w\<lparr>inbound := r, outbound := outbound w @ [m]\<rparr> = w"
  then have "outbound (w\<lparr>inbound := r, outbound := outbound w @ [m]\<rparr>) = outbound w" by simp
  then show False by simp
qed

section \<open>The claims\<close>

text \<open>
  C1. When the first inbound message has a type other than \<^verbatim>\<open>websocket.connect\<close>,
  \<open>connect\<close> raises \<open>WebSocketProtocolError\<close>: its detail ends with the unexpected type
  as \<^verbatim>\<open>%s\<close> prints it, its status code is 1002, and nothing is sent outbound (the
  outbound list is the one before the call).
\<close>

theorem connect_rejects_unexpected_type:
  assumes "inbound w = msg # rest" and "msg ''type'' = Some t"
    and "t \<noteq> PStr ''websocket.connect''"
  shows "connect (recorded sc obj) w =
           (Raise (WebSocketProtocolError
              (''Expected websocket connection but got: '' @ py_str t) 1002),
            w\<lparr>inbound := rest\<rparr>)
         \<and> outbound (snd (connect (recorded sc obj) w)) = outbound w"
  using assms by (simp add: connect_recorded)

theorem connect_rejects_unexpected_type_witness:
  "connect (recorded [''type'' \<mapsto> PStr ''websocket''] (Some connection))
     \<lparr>inbound = [[''type'' \<mapsto> PStr ''websocket.send'', ''text'' \<mapsto> PStr ''x'']],
      outbound = [], connection = WithState CONNECTING\<rparr>
   = (Raise (WebSocketProtocolError
        ''Expected websocket connection but got: websocket.send'' 1002),
      \<lparr>inbound = [], outbound = [], connection = WithState CONNECTING\<rparr>)"
  using connect_rejects_unexpected_type
    [of "\<lparr>inbound = [[''type'' \<mapsto> PStr ''websocket.send'', ''text'' \<mapsto> PStr ''x'']],
          outbound = [], connection = WithState CONNECTING\<rparr>"
        "[''type'' \<mapsto> PStr ''websocket.send'', ''text'' \<mapsto> PStr ''x'']" "[]"
        "PStr ''websocket.send''" "[''type'' \<mapsto> PStr ''websocket'']" "Some connection"]
  by simp

text \<open>
  C2. When the first inbound message has the type \<^verbatim>\<open>websocket.connect\<close>, \<open>connect\<close>
  returns \<^verbatim>\<open>None\<close> without an error, having taken that message from the queue and sent
  exactly one outbound message, \<^verbatim>\<open>{'type': 'websocket.accept'}\<close>.
\<close>

theorem connect_accepts:
  assumes "inbound w = msg # rest" and "msg ''type'' = Some (PStr ''websocket.connect'')"
  shows "connect (recorded sc obj) w =
           (Return PNone,
            w\<lparr>inbound := rest,
              outbound := outbound w @ [[''type'' \<mapsto> PStr ''websocket.accept'']]\<rparr>)"
  using assms by (simp add: connect_recorded)

theorem connect_accepts_witness:
  "connect (recorded [''type'' \<mapsto> PStr ''websocket''] (Some connection))
     \<lparr>inbound = [[''type'' \<mapsto> PStr ''websocket.connect''],
                 [''type'' \<mapsto> PStr ''websocket.send'', ''text'' \<mapsto> PStr ''hi'']],
      outbound = [], connection = WithState CONNECTING\<rparr>
   = (Return PNone,
      \<lparr>inbound = [[''type'' \<mapsto> PStr ''websocket.send'', ''text'' \<mapsto> PStr ''hi'']],
       outbound = [[''type'' \<mapsto> PStr ''websocket.accept'']],
       connection = WithState CONNECTING\<rparr>)
   \<and> receive (recorded [''type'' \<mapsto> PStr ''websocket''] (Some connection))
       \<lparr>inbound = [[''type'' \<mapsto> PStr ''websocket.send'', ''text'' \<mapsto> PStr ''hi'']],
        outbound = [[''type'' \<mapsto> PStr ''websocket.accept'']],
        connection = WithState CONNECTING\<rparr>
     = (Return (PStr ''hi''),
        \<lparr>inbound = [], outbound = [[''type'' \<mapsto> PStr ''websocket.accept'']],
         connection = WithState CONNECTING\<rparr>)"
  using connect_accepts
    [of "\<lparr>inbound = [[''type'' \<mapsto> PStr ''websocket.connect''],
                 [''type'' \<mapsto> PStr ''websocket.send'', ''text'' \<mapsto> PStr ''hi'']],
          outbound = [], connection = WithState CONNECTING\<rparr>"
        "[''type'' \<mapsto> PStr ''websocket.connect'']"
        "[[''type'' \<mapsto> PStr ''websocket.send'', ''text'' \<mapsto> PStr ''hi'']]"
        "[''type'' \<mapsto> PStr ''websocket'']" "Some connection"]
  by (simp add: receive_recorded dict_get_def)

text \<open>
  C3, amended. For a \<open>send\<close> call whose extra fields name neither \<^verbatim>\<open>text\<close> nor
  \<^verbatim>\<open>bytes\<close>, exactly one message goes outbound: with a non-empty string payload it has
  \<^verbatim>\<open>text\<close> set to the payload and no \<^verbatim>\<open>bytes\<close>; with a non-empty bytes payload it has
  \<^verbatim>\<open>bytes\<close> set to the payload and no \<^verbatim>\<open>text\<close>; with a payload that is false in a
  condition (\<^verbatim>\<open>None\<close>, the empty string, the empty bytes) it has neither.
\<close>

theorem send_payload_field:
  assumes "kwargs ''text'' = None" and "kwargs ''bytes'' = None"
  shows "\<exists>m. send (recorded sc obj) data kwargs w =
                (Return PNone, w\<lparr>outbound := outbound w @ [m]\<rparr>)
           \<and> (\<forall>s. data = PStr s \<and> s \<noteq> [] \<longrightarrow> m ''text'' = Some (PStr s) \<and> m ''bytes'' = None)
           \<and> (\<forall>b. data = PBytes b \<and> b \<noteq> [] \<longrightarrow> m ''bytes'' = Some (PBytes b) \<and> m ''text'' = None)
           \<and> (\<not> truthy data \<longrightarrow> m ''text'' = None \<and> m ''bytes'' = None)"
  using assms by (auto simp: send_recorded map_add_def)

theorem send_payload_field_witness:
  "\<exists>m. send (recorded Map.empty None) (PStr ''hi'') Map.empty
          \<lparr>inbound = [], outbound = [], connection = WithState OPEN\<rparr>
        = (Return PNone, \<lparr>inbound = [], outbound = [m], connection = WithState OPEN\<rparr>)
      \<and> m ''text'' = Some (PStr ''hi'') \<and> m ''bytes'' = None"
  using send_payload_field
    [of Map.empty Map.empty None "PStr ''hi''"
        "\<lparr>inbound = [], outbound = [], connection = WithState OPEN\<rparr>"]
  by simp

text \<open>
  C3 as stated, for every \<open>send\<close> call, fails: an extra field named \<^verbatim>\<open>bytes\<close> stays in
  the message that a string payload goes out in, which then has both fields.
\<close>

theorem send_payload_field_counterexample:
  "send (recorded Map.empty None) (PStr ''hi'') [''bytes'' \<mapsto> PBytes ''x'']
     \<lparr>inbound = [], outbound = [], connection = WithState OPEN\<rparr>
   = (Return PNone,
      \<lparr>inbound = [],
       outbound = [[''type'' \<mapsto> PStr ''websocket.send'', ''bytes'' \<mapsto> PBytes ''x'',
                    ''text'' \<mapsto> PStr ''hi'']],
       connection = WithState OPEN\<rparr>)
   \<and> hd (outbound (snd (send (recorded Map.empty None) (PStr ''hi'') [''bytes'' \<mapsto> PBytes ''x'']
          \<lparr>inbound = [], outbound = [], connection = WithState OPEN\<rparr>))) ''bytes''
     = Some (PBytes ''x'')"
  by (simp add: send_recorded)

text \<open>
  C4. \<open>receive\<close> takes the next inbound message from the queue; it returns the value of
  the message's \<^verbatim>\<open>text\<close> field when there is one, else the value of its \<^verbatim>\<open>bytes\<close> field
  when there is one, else \<^verbatim>\<open>None\<close>.
\<close>

theorem receive_text_then_bytes:
  assumes "inbound w = msg # rest"
  shows "snd (receive (recorded sc obj) w) = w\<lparr>inbound := rest\<rparr>
         \<and> (\<forall>v. msg ''text'' = Some v \<longrightarrow> fst (receive (recorded sc obj) w) = Return v)
         \<and> (\<forall>v. msg ''text'' = None \<and> msg ''bytes'' = Some v \<longrightarrow>
               fst (receive (recorded sc obj) w) = Return v)
         \<and> (msg ''text'' = None \<and> msg ''bytes'' = None \<longrightarrow>
               fst (receive (recorded sc obj) w) = Return PNone)"
  using assms by (simp add: receive_recorded dict_get_def)

theorem receive_text_then_bytes_witness:
  "fst (receive (recorded Map.empty None)
     \<lparr>inbound = [[''type'' \<mapsto> PStr ''websocket.receive'', ''bytes'' \<mapsto> PBytes ''raw'']],
      outbound = [], connection = WithState OPEN\<rparr>) = Return (PBytes ''raw'')
   \<and> snd (receive (recorded Map.empty None)
     \<lparr>inbound = [[''type'' \<mapsto> PStr ''websocket.receive'', ''bytes'' \<mapsto> PBytes ''raw'']],
      outbound = [], connection = WithState OPEN\<rparr>)
     = \<lparr>inbound = [], outbound = [], connection = WithState OPEN\<rparr>"
  using receive_text_then_bytes
    [of "\<lparr>inbound = [[''type'' \<mapsto> PStr ''websocket.receive'', ''bytes'' \<mapsto> PBytes ''raw'']],
          outbound = [], connection = WithState OPEN\<rparr>"
        "[''type'' \<mapsto> PStr ''websocket.receive'', ''bytes'' \<mapsto> PBytes ''raw'']" "[]"
        Map.empty None]
  by simp

text \<open>
  C5. \<open>on_response\<close>, for a scope of type \<^verbatim>\<open>websocket\<close> and a handle that reports open,
  is one \<open>close\<close> call with the default code and the response's content as payload
  (\<^verbatim>\<open>None\<close> when there is no response), which puts one disconnect message outbound; for
  any other scope type, or a handle that does not report open, the runtime is left as it
  was, so nothing is sent.
\<close>

theorem on_response_closes_when_open:
  "(sc ''type'' = Some (PStr ''websocket'') \<and> is_open (recorded sc' obj) w = Inr True \<longrightarrow>
      on_response (recorded sc' obj) resp sc w =
        close (recorded sc' obj) None (case resp of None \<Rightarrow> PNone | Some r \<Rightarrow> content r) w
      \<and> (\<exists>m. outbound (snd (on_response (recorded sc' obj) resp sc w)) = outbound w @ [m]
             \<and> m ''type'' = Some (PStr ''websocket.disconnect'')))
   \<and> (sc ''type'' \<noteq> Some (PStr ''websocket'') \<or> is_open (recorded sc' obj) w \<noteq> Inr True \<longrightarrow>
        snd (on_response (recorded sc' obj) resp sc w) = w)"
  by (auto simp: on_response_def close_recorded response_data_def await_def returns_def raises_def
      split: sum.splits option.splits)

theorem on_response_closes_when_open_witness:
  "on_response (recorded [''type'' \<mapsto> PStr ''websocket''] (Some connection))
     (Some \<lparr>content = PStr ''bye''\<rparr>) [''type'' \<mapsto> PStr ''websocket'']
     \<lparr>inbound = [], outbound = [], connection = WithState OPEN\<rparr>
   = (Return PNone,
      \<lparr>inbound = [],
       outbound = [[''type'' \<mapsto> PStr ''websocket.disconnect'', ''code'' \<mapsto> PInt 1000,
                    ''text'' \<mapsto> PStr ''bye'']],
       connection = WithState OPEN\<rparr>)
   \<and> snd (on_response (recorded [''type'' \<mapsto> PStr ''websocket''] (Some connection))
     (Some \<lparr>content = PStr ''bye''\<rparr>) [''type'' \<mapsto> PStr ''websocket'']
     \<lparr>inbound = [], outbound = [], connection = WithState CLOSED\<rparr>)
     = \<lparr>inbound = [], outbound = [], connection = WithState CLOSED\<rparr>"
  using on_response_closes_when_open
    [of "[''type'' \<mapsto> PStr ''websocket'']" "[''type'' \<mapsto> PStr ''websocket'']" "Some connection"
        "\<lparr>inbound = [], outbound = [], connection = WithState OPEN\<rparr>"
        "Some \<lparr>content = PStr ''bye''\<rparr>"]
    on_response_closes_when_open
    [of "[''type'' \<mapsto> PStr ''websocket'']" "[''type'' \<mapsto> PStr ''websocket'']" "Some connection"
        "\<lparr>inbound = [], outbound = [], connection = WithState CLOSED\<rparr>"
        "Some \<lparr>content = PStr ''bye''\<rparr>"]
  by (simp add: is_open_recorded close_recorded)

text \<open>
  C6. \<open>on_error\<close> does what \<open>on_response\<close> does: on every handle, response, scope and
  runtime state the two have the same outcome and leave the same state.
\<close>

theorem on_error_same_as_on_response:
  "on_error ws resp sc w = on_response ws resp sc w"
  by (simp add: on_error_def on_response_def)

text \<open>
  C7. When neither the handle's scope nor the scope handed to the hook has the type
  \<^verbatim>\<open>websocket\<close>, each of \<open>on_request\<close>, \<open>on_response\<close> and \<open>on_error\<close> returns \<^verbatim>\<open>None\<close>
  and leaves the runtime as it was. Neither \<open>connect\<close> nor \<open>close\<close> has run then: on the
  same state, neither of them returns with the runtime unchanged.
\<close>

theorem hooks_idle_without_websocket_scope:
  assumes "sc' ''type'' \<noteq> Some (PStr ''websocket'')" and "sc ''type'' \<noteq> Some (PStr ''websocket'')"
  shows "on_request (recorded sc' obj) w = (Return PNone, w)
         \<and> on_response (recorded sc' obj) resp sc w = (Return PNone, w)
         \<and> on_error (recorded sc' obj) resp sc w = (Return PNone, w)
         \<and> connect (recorded sc' obj) w \<noteq> (Return PNone, w)
         \<and> close (recorded sc' obj) code data w \<noteq> (Return PNone, w)"
proof -
  have "on_request (recorded sc' obj) w = (Return PNone, w)"
    using assms(1) by (simp add: on_request_def scope_recorded returns_def)
  moreover have "on_response (recorded sc' obj) resp sc w = (Return PNone, w)"
    using assms(2) by (simp add: on_response_def returns_def)
  moreover have "on_error (recorded sc' obj) resp sc w = (Return PNone, w)"
    using assms(2) by (simp add: on_error_def returns_def)
  moreover have "connect (recorded sc' obj) w \<noteq> (Return PNone, w)"
    by (simp add: connect_recorded outbound_grows_inbound split: list.splits option.splits)
  moreover have "close (recorded sc' obj) code data w \<noteq> (Return PNone, w)"
    by (simp add: close_recorded outbound_grows)
  ultimately show ?thesis by simp
qed

theorem hooks_idle_without_websocket_scope_witness:
  "on_request (recorded [''type'' \<mapsto> PStr ''http''] (Some connection))
     \<lparr>inbound = [[''type'' \<mapsto> PStr ''http.request'']], outbound = [],
      connection = WithState OPEN\<rparr>
   = (Return PNone,
      \<lparr>inbound = [[''type'' \<mapsto> PStr ''http.request'']], outbound = [],
       connection = WithState OPEN\<rparr>)
   \<and> on_response (recorded [''type'' \<mapsto> PStr ''http''] (Some connection))
       (Some \<lparr>content = PBytes ''ok''\<rparr>) [''type'' \<mapsto> PStr ''http'']
       \<lparr>inbound = [[''type'' \<mapsto> PStr ''http.request'']], outbound = [],
        connection = WithState OPEN\<rparr>
     = (Return PNone,
        \<lparr>inbound = [[''type'' \<mapsto> PStr ''http.request'']], outbound = [],
         connection = WithState OPEN\<rparr>)
   \<and> on_error (recorded [''type'' \<mapsto> PStr ''http''] (Some connection))
       (Some \<lparr>content = PBytes ''ok''\<rparr>) [''type'' \<mapsto> PStr ''http'']
       \<lparr>inbound = [[''type'' \<mapsto> PStr ''http.request'']], outbound = [],
        connection = WithState OPEN\<rparr>
     = (Return PNone,
        \<lparr>inbound = [[''type'' \<mapsto> PStr ''http.request'']], outbound = [],
         connection = WithState OPEN\<rparr>)"
  using hooks_idle_without_websocket_scope
    [of "[''type'' \<mapsto> PStr ''http'']" "[''type'' \<mapsto> PStr ''http'']" "Some connection"
        "\<lparr>inbound = [[''type'' \<mapsto> PStr ''http.request'']], outbound = [],
          connection = WithState OPEN\<rparr>"
        "Some \<lparr>content = PBytes ''ok''\<rparr>"]
  by simp

text \<open>
  C8. \<open>close\<close> sends exactly one outbound message, of type \<^verbatim>\<open>websocket.disconnect\<close>,
  whose \<^verbatim>\<open>code\<close> is the given code, or 1000 when none is given; it has \<^verbatim>\<open>text\<close> set for
  a non-empty string payload, \<^verbatim>\<open>bytes\<close> set for a non-empty bytes payload, and neither
  for a payload that is false in a condition.
\<close>

theorem close_sends_disconnect:
  "\<exists>m. close (recorded sc obj) code data w = (Return PNone, w\<lparr>outbound := outbound w @ [m]\<rparr>)
     \<and> m ''type'' = Some (PStr ''websocket.disconnect'')
     \<and> (\<forall>c. code = Some c \<longrightarrow> m ''code'' = Some (PInt c))
     \<and> (code = None \<longrightarrow> m ''code'' = Some (PInt 1000))
     \<and> (\<forall>s. data = PStr s \<and> s \<noteq> [] \<longrightarrow> m ''text'' = Some (PStr s) \<and> m ''bytes'' = None)
     \<and> (\<forall>b. data = PBytes b \<and> b \<noteq> [] \<longrightarrow> m ''bytes'' = Some (PBytes b) \<and> m ''text'' = None)
     \<and> (\<not> truthy data \<longrightarrow> m ''text'' = None \<and> m ''bytes'' = None)"
  by (auto simp: close_recorded)

theorem close_sends_disconnect_witness:
  "\<exists>m. close (recorded Map.empty None) (Some 1001) (PBytes ''x'')
          \<lparr>inbound = [], outbound = [], connection = WithState OPEN\<rparr>
        = (Return PNone, \<lparr>inbound = [], outbound = [m], connection = WithState OPEN\<rparr>)
      \<and> m ''type'' = Some (PStr ''websocket.disconnect'')
      \<and> m ''code'' = Some (PInt 1001)
      \<and> m ''bytes'' = Some (PBytes ''x'') \<and> m ''text'' = None"
  using close_sends_disconnect
    [of Map.empty None "Some 1001" "PBytes ''x''"
        "\<lparr>inbound = [], outbound = [], connection = WithState OPEN\<rparr>"]
  by simp

text \<open>
  C9. \<open>WebSocketClosed\<close> built with no arguments carries the detail
  \<^verbatim>\<open>WebSocket has closed\<close> and the status code 200, not 1000: its \<^verbatim>\<open>status_code\<close>
  argument, whose default is 1000, is not handed on, while \<open>WebSocketProtocolError\<close> does
  hand its own on.
\<close>

theorem WebSocketClosed_init_status:
  "WebSocketClosed_init None None = WebSocketClosed ''WebSocket has closed'' 200
   \<and> WebSocketClosed_init detail (Some c) = WebSocketClosed_init detail None
   \<and> WebSocketProtocolError_init None None = WebSocketProtocolError ''WebSocket protocol error'' 1002"
  by (simp add: WebSocketClosed_init_def WebSocketProtocolError_init_def)



end
